theory Spec2Isabelle
  imports Main
begin

section \<open>JavaScript values used by the front end\<close>

text \<open>
  Strings are lists of code units; \<open>length\<close> is JavaScript's \<open>.length\<close>. A string is
  falsy exactly when it is empty, which is what \<open>if (token)\<close> and \<open>a || b\<close> test.
\<close>

definition truthy :: "string \<Rightarrow> bool" where
  "truthy s = (s \<noteq> [])"

text \<open>\<open>opt_truthy\<close>: truthiness of a value that is a string, \<open>null\<close> or \<open>undefined\<close>.\<close>

definition opt_truthy :: "string option \<Rightarrow> bool" where
  "opt_truthy v = (case v of None \<Rightarrow> False | Some s \<Rightarrow> truthy s)"

text \<open>\<open>a || b\<close> where \<open>a\<close> may be missing and \<open>b\<close> is a string.\<close>

definition or_else :: "string option \<Rightarrow> string \<Rightarrow> string" where
  "or_else a b = (case a of None \<Rightarrow> b | Some s \<Rightarrow> if truthy s then s else b)"

fun startsWith :: "string \<Rightarrow> string \<Rightarrow> bool" where
  "startsWith s [] = True"
| "startsWith [] (c # cs) = False"
| "startsWith (x # xs) (c # cs) = (x = c \<and> startsWith xs cs)"

text \<open>\<open>String.prototype.includes\<close>: the search string occurs at some position.\<close>

fun str_includes :: "string \<Rightarrow> string \<Rightarrow> bool" where
  "str_includes [] e = (e = [])"
| "str_includes (x # xs) e = (startsWith (x # xs) e \<or> str_includes xs e)"

text \<open>
  \<open>config.url?.includes(endpoint)\<close>: with no URL the optional chain yields \<open>undefined\<close>,
  which \<open>Array.prototype.some\<close> reads as false.
\<close>

definition opt_includes :: "string option \<Rightarrow> string \<Rightarrow> bool" where
  "opt_includes u e = (case u of None \<Rightarrow> False | Some s \<Rightarrow> str_includes s e)"

section \<open>Browser state\<close>

text \<open>\<open>localStorage\<close>: a map from keys to strings.\<close>

type_synonym local_storage = "string \<rightharpoonup> string"

definition getItem :: "local_storage \<Rightarrow> string \<Rightarrow> string option" where
  "getItem st k = st k"

definition setItem :: "local_storage \<Rightarrow> string \<Rightarrow> string \<Rightarrow> local_storage" where
  "setItem st k v = st(k \<mapsto> v)"

definition removeItem :: "local_storage \<Rightarrow> string \<Rightarrow> local_storage" where
  "removeItem st k = st(k := None)"

definition clear :: "local_storage \<Rightarrow> local_storage" where
  "clear st = Map.empty"

datatype toast = ToastSuccess string | ToastError string | ToastInfo string

datatype http_verb = GET | POST | DELETE

text \<open>
  An axios request configuration, reduced to what the interceptors and the pages read
  and write: the verb, \<open>config.url\<close> (possibly undefined), \<open>config.headers.Authorization\<close>
  and the JSON body as key/value pairs.
\<close>

record config =
  verb :: http_verb
  url :: "string option"
  Authorization :: "string option"
  payload :: "(string \<times> string) list"

text \<open>
  The fields of \<open>err.response.data\<close> that the pages read: \<open>email[0]\<close>, \<open>password1[0]\<close>,
  \<open>non_field_errors[0]\<close> and \<open>error\<close>.
\<close>

record err_body =
  data_email :: "string option"
  data_password1 :: "string option"
  data_non_field_errors :: "string option"
  data_error :: "string option"

text \<open>
  An axios error: \<open>error.response?.status\<close> (\<open>None\<close> when there is no response),
  \<open>error.config?.url\<close> and \<open>error.response?.data\<close>.
\<close>

record axios_error =
  err_status :: "nat option"
  err_url :: "string option"
  err_data :: err_body

text \<open>
  What the backend answers to one call: \<open>Ok d\<close> is a 2xx response with body \<open>d\<close>;
  \<open>Fail (Some n) d\<close> a response with the non-2xx status \<open>n\<close>; \<open>Fail None d\<close> no response
  at all. axios resolves the first and rejects the other two.
\<close>

datatype 'a reply = Ok 'a | Fail "nat option" err_body

datatype 'a settled = Fulfilled 'a | Rejected axios_error

text \<open>The token pair of \<open>res.data\<close>, as the strings \<open>setItem\<close> stores.\<close>

record token_pair =
  access :: string
  refresh :: string

text \<open>A repository row of \<open>GET /api/repositories/\<close>, with the fields the page shows.\<close>

record sync_status =
  status :: string
  last_synced :: "string option"
  last_sync_error :: "string option"

record repo =
  repo_id :: string
  repo_name :: string
  repo_sync_status :: "sync_status option"

record linked_account =
  uid :: string
  username :: string
  label :: "string option"

text \<open>
  The state the front end reads and writes. Process-wide: \<open>localStorage\<close>, the
  AuthContext's \<open>user\<close> flag (\<open>True\<close> for \<open>true\<close>, \<open>False\<close> for \<open>null\<close>), the toasts
  shown, \<open>window.location.pathname\<close> and the requests sent so far. Of the mounted page:
  its \<open>loading\<close> flag, the \<open>repositories\<close> and \<open>syncing\<close> of ImportedRepos, and the
  \<open>accounts\<close>, \<open>editingLabel\<close> and \<open>labelValue\<close> of ConnectedAccounts. Console output
  (\<open>console.error\<close>) is not part of the state.
\<close>

record client =
  storage :: local_storage
  user :: bool
  toasts :: "toast list"
  pathname :: string
  sent :: "config list"
  loading :: bool
  repositories :: "repo list"
  syncing :: "string \<rightharpoonup> bool"
  accounts :: "(string \<times> linked_account list) list"
  editingLabel :: "string option"
  labelValue :: string

definition toast_success :: "string \<Rightarrow> client \<Rightarrow> client" where
  "toast_success m w = w\<lparr>toasts := toasts w @ [ToastSuccess m]\<rparr>"

definition toast_error :: "string \<Rightarrow> client \<Rightarrow> client" where
  "toast_error m w = w\<lparr>toasts := toasts w @ [ToastError m]\<rparr>"

text \<open>\<open>navigate(p)\<close> of react-router: the location becomes \<open>p\<close>.\<close>

definition navigate :: "string \<Rightarrow> client \<Rightarrow> client" where
  "navigate p w = w\<lparr>pathname := p\<rparr>"

section \<open>services/api: the axios instance and its interceptors\<close>

definition publicEndpoints :: "string list" where
  "publicEndpoints =
     [''/api/auth/login/'', ''/api/auth/registration/'', ''/api/auth/google/'',
      ''/accounts/github/login/'']"

text \<open>\<open>isPublicEndpoint\<close> of the request interceptor.\<close>

definition request_isPublicEndpoint :: "config \<Rightarrow> bool" where
  "request_isPublicEndpoint cfg =
     list_ex (\<lambda>endpoint. opt_includes (url cfg) endpoint) publicEndpoints"

definition request_interceptor :: "client \<Rightarrow> config \<Rightarrow> config" where
  "request_interceptor w cfg =
     (let isPublicEndpoint = request_isPublicEndpoint cfg in
      if \<not> isPublicEndpoint then
        (case getItem (storage w) ''access'' of
           None \<Rightarrow> cfg
         | Some token \<Rightarrow>
             if truthy token then cfg\<lparr>Authorization := Some (''Bearer '' @ token)\<rparr> else cfg)
      else cfg)"

text \<open>\<open>isAuthEndpoint\<close> of the response interceptor's error handler.\<close>

definition response_isAuthEndpoint :: "axios_error \<Rightarrow> bool" where
  "response_isAuthEndpoint err =
     list_ex (\<lambda>endpoint. opt_includes (err_url err) endpoint) publicEndpoints"

text \<open>
  The error handler of the response interceptor. It always ends in
  \<open>Promise.reject(error)\<close>: the second component is the error the promise is rejected
  with. Assigning \<open>window.location.href = "/login"\<close> makes the pathname \<open>/login\<close>.
\<close>

definition response_error :: "client \<Rightarrow> axios_error \<Rightarrow> client \<times> axios_error" where
  "response_error w err =
     ((if err_status err = Some 401 then
         (let isAuthEndpoint = response_isAuthEndpoint err in
          if \<not> isAuthEndpoint then
            (let w1 = w\<lparr>storage := removeItem (storage w) ''access''\<rparr>;
                 w2 = w1\<lparr>storage := removeItem (storage w1) ''refresh''\<rparr>;
                 w3 = toast_error ''Your session has expired. Please login again.'' w2
             in if pathname w3 \<noteq> ''/login'' then w3\<lparr>pathname := ''/login''\<rparr> else w3)
          else w)
       else w),
      err)"

text \<open>
  One call through the axios instance: the request interceptor runs on the
  configuration, the request is sent, and the reply settles the promise: a 2xx reply
  through the success handler \<open>(response) => response\<close>, any other through the error
  handler, with \<open>error.config\<close> the configuration that was sent.
\<close>

definition api_call ::
  "client \<Rightarrow> http_verb \<Rightarrow> string \<Rightarrow> (string \<times> string) list \<Rightarrow> 'a reply \<Rightarrow> client \<times> 'a settled"
where
  "api_call w v u body rep =
     (let cfg = request_interceptor w
                  \<lparr>verb = v, url = Some u, Authorization = None, payload = body\<rparr>;
          w1 = w\<lparr>sent := sent w @ [cfg]\<rparr>
      in case rep of
           Ok d \<Rightarrow> (w1, Fulfilled d)
         | Fail st d \<Rightarrow>
             (case response_error w1 \<lparr>err_status = st, err_url = url cfg, err_data = d\<rparr> of
                (w2, err) \<Rightarrow> (w2, Rejected err)))"

section \<open>context/AuthContext\<close>

text \<open>\<open>localStorage.getItem("access") ? true : null\<close>.\<close>

definition access_flag :: "local_storage \<Rightarrow> bool" where
  "access_flag st = opt_truthy (getItem st ''access'')"

definition checkAuth :: "client \<Rightarrow> client" where
  "checkAuth w = w\<lparr>user := access_flag (storage w)\<rparr>"

text \<open>Mounting the provider: the initial \<open>useState\<close> value, then the mount effect.\<close>

definition AuthProvider_mount :: "client \<Rightarrow> client" where
  "AuthProvider_mount w = checkAuth (w\<lparr>user := access_flag (storage w)\<rparr>)"

text \<open>
  The three statements that end \<open>login\<close>, \<open>loginWithGoogle\<close> and \<open>signup\<close> alike: store
  \<open>res.data.access\<close> and \<open>res.data.refresh\<close>, then \<open>setUser(true)\<close>.
\<close>

definition install_tokens :: "token_pair \<Rightarrow> client \<Rightarrow> client" where
  "install_tokens res w =
     (let w1 = w\<lparr>storage := setItem (storage w) ''access'' (access res)\<rparr>;
          w2 = w1\<lparr>storage := setItem (storage w1) ''refresh'' (refresh res)\<rparr>
      in w2\<lparr>user := True\<rparr>)"

definition login :: "client \<Rightarrow> string \<Rightarrow> string \<Rightarrow> token_pair reply \<Rightarrow> client \<times> unit settled" where
  "login w email password rep =
     (case api_call w POST ''/api/auth/login/''
             [(''email'', email), (''password'', password)] rep of
        (w1, Fulfilled res) \<Rightarrow> (install_tokens res w1, Fulfilled ())
      | (w1, Rejected err) \<Rightarrow> (w1, Rejected err))"

definition loginWithGoogle :: "client \<Rightarrow> string \<Rightarrow> token_pair reply \<Rightarrow> client \<times> unit settled" where
  "loginWithGoogle w accessToken rep =
     (case api_call w POST ''/api/auth/google/'' [(''access_token'', accessToken)] rep of
        (w1, Fulfilled res) \<Rightarrow> (install_tokens res w1, Fulfilled ())
      | (w1, Rejected err) \<Rightarrow> (w1, Rejected err))"

definition signup ::
  "client \<Rightarrow> string \<Rightarrow> string \<Rightarrow> string \<Rightarrow> token_pair reply \<Rightarrow> client \<times> unit settled"
where
  "signup w email password1 password2 rep =
     (case api_call w POST ''/api/auth/registration/''
             [(''email'', email), (''password1'', password1), (''password2'', password2)] rep of
        (w1, Fulfilled res) \<Rightarrow> (install_tokens res w1, Fulfilled ())
      | (w1, Rejected err) \<Rightarrow> (w1, Rejected err))"

definition logout :: "client \<Rightarrow> client" where
  "logout w = (let w1 = w\<lparr>storage := clear (storage w)\<rparr> in w1\<lparr>user := False\<rparr>)"

section \<open>pages/SignUp\<close>

text \<open>
  The message shown when the registration is rejected: the first truthy one of
  \<open>data.email[0]\<close>, \<open>data.password1[0]\<close>, \<open>data.non_field_errors[0]\<close>, \<open>data.error\<close>,
  else a fixed text.
\<close>

definition errorMessage :: "axios_error \<Rightarrow> string" where
  "errorMessage err =
     or_else (data_email (err_data err))
       (or_else (data_password1 (err_data err))
          (or_else (data_non_field_errors (err_data err))
             (or_else (data_error (err_data err)) ''Signup failed. Please try again.'')))"

definition handleSubmit ::
  "client \<Rightarrow> string \<Rightarrow> string \<Rightarrow> string \<Rightarrow> token_pair reply \<Rightarrow> client"
where
  "handleSubmit w email password1 password2 rep =
     (if password1 \<noteq> password2 then toast_error ''Passwords do not match'' w
      else if length password1 < 8 then
        toast_error ''Password must be at least 8 characters long'' w
      else
        (let w1 = w\<lparr>loading := True\<rparr>;
             w2 = w1\<lparr>storage := removeItem (storage w1) ''access''\<rparr>;
             w3 = w2\<lparr>storage := removeItem (storage w2) ''refresh''\<rparr>;
             w4 = (case signup w3 email password1 password2 rep of
                     (w', Fulfilled u) \<Rightarrow>
                       navigate ''/'' (toast_success ''Account created successfully! Welcome!'' w')
                   | (w', Rejected err) \<Rightarrow> toast_error (errorMessage err) w')
         in w4\<lparr>loading := False\<rparr>))"

section \<open>App: the GitHub OAuth callback\<close>

text \<open>
  The effect of \<open>GitHubCallback\<close>. \<open>access_q\<close>, \<open>refresh_q\<close> and \<open>fromConnect\<close> are the
  query parameters (\<open>searchParams.get\<close> gives a string or \<open>null\<close>), \<open>href\<close> is
  \<open>window.location.href\<close>.
\<close>

definition GitHubCallback ::
  "client \<Rightarrow> string option \<Rightarrow> string option \<Rightarrow> string option \<Rightarrow> string \<Rightarrow> client"
where
  "GitHubCallback w access_q refresh_q fromConnect href =
     (let noTokens =
            (let isConnectFlow = str_includes href ''process=connect'' in
             if isConnectFlow then navigate ''/github'' w else navigate ''/login'' w)
      in case access_q of
           None \<Rightarrow> noTokens
         | Some a \<Rightarrow>
             (case refresh_q of
                None \<Rightarrow> noTokens
              | Some r \<Rightarrow>
                  if truthy a \<and> truthy r then
                    (let w1 = w\<lparr>storage := setItem (storage w) ''access'' a\<rparr>;
                         w2 = w1\<lparr>storage := setItem (storage w1) ''refresh'' r\<rparr>
                     in if fromConnect = Some ''true'' then navigate ''/github'' w2
                        else navigate ''/'' w2)
                  else noTokens))"

section \<open>pages/ImportedRepos\<close>

text \<open>The reply body of the list call is the value of \<open>res.data.results || res.data\<close>.\<close>

definition fetchImportedRepos :: "client \<Rightarrow> repo list reply \<Rightarrow> client" where
  "fetchImportedRepos w rep =
     (let w1 = w\<lparr>loading := True\<rparr>;
          w2 = (case api_call w1 GET ''/api/repositories/'' [] rep of
                  (w', Fulfilled rs) \<Rightarrow> w'\<lparr>repositories := rs\<rparr>
                | (w', Rejected err) \<Rightarrow> toast_error ''Failed to load imported repositories'' w')
      in w2\<lparr>loading := False\<rparr>)"

text \<open>
  \<open>repoId\<close> is the identifier as the template literal renders it. The reply body of the
  sync call is \<open>res.data.message\<close>. The \<open>finally\<close> block writes the \<open>syncing\<close> map of the
  render in which the handler was created.
\<close>

definition handleSync :: "client \<Rightarrow> string \<Rightarrow> string option reply \<Rightarrow> repo list reply \<Rightarrow> client" where
  "handleSync w repoId rep listRep =
     (let w1 = w\<lparr>syncing := (syncing w)(repoId \<mapsto> True)\<rparr>;
          w2 = (case api_call w1 POST (''/api/repositories/'' @ repoId @ ''/sync/'') [] rep of
                  (w', Fulfilled message) \<Rightarrow>
                    fetchImportedRepos
                      (toast_success (or_else message ''Repository synced successfully'') w') listRep
                | (w', Rejected err) \<Rightarrow>
                    toast_error (or_else (data_error (err_data err)) ''Failed to sync repository'') w')
      in w2\<lparr>syncing := (syncing w)(repoId \<mapsto> False)\<rparr>)"

text \<open>\<open>confirmed\<close> is the answer of \<open>window.confirm\<close>.\<close>

definition handleDelete :: "client \<Rightarrow> bool \<Rightarrow> string \<Rightarrow> unit reply \<Rightarrow> repo list reply \<Rightarrow> client" where
  "handleDelete w confirmed repoId rep listRep =
     (if \<not> confirmed then w
      else
        (case api_call w DELETE (''/api/repositories/'' @ repoId @ ''/'') [] rep of
           (w', Fulfilled u) \<Rightarrow>
             fetchImportedRepos (toast_success ''Repository removed successfully'' w') listRep
         | (w', Rejected err) \<Rightarrow> toast_error ''Failed to remove repository'' w'))"

definition getStatusColor :: "string \<Rightarrow> string" where
  "getStatusColor st =
     (if st = ''success'' then ''bg-green-100 text-green-800''
      else if st = ''failed'' then ''bg-red-100 text-red-800''
      else if st = ''syncing'' then ''bg-blue-100 text-blue-800''
      else if st = ''pending'' then ''bg-yellow-100 text-yellow-800''
      else ''bg-gray-100 text-gray-800'')"

section \<open>pages/ConnectedAccounts\<close>

definition fetchConnectedAccounts ::
  "client \<Rightarrow> (string \<times> linked_account list) list reply \<Rightarrow> client"
where
  "fetchConnectedAccounts w rep =
     (let w1 = w\<lparr>loading := True\<rparr>;
          w2 = (case api_call w1 GET ''/api/auth/connected-accounts/'' [] rep of
                  (w', Fulfilled d) \<Rightarrow> w'\<lparr>accounts := d\<rparr>
                | (w', Rejected err) \<Rightarrow> toast_error ''Failed to load connected accounts'' w')
      in w2\<lparr>loading := False\<rparr>)"

definition startEditingLabel :: "client \<Rightarrow> string \<Rightarrow> string \<Rightarrow> string option \<Rightarrow> client" where
  "startEditingLabel w provider account_uid currentLabel =
     (let w1 = w\<lparr>editingLabel := Some (provider @ ''-'' @ account_uid)\<rparr>
      in w1\<lparr>labelValue := or_else currentLabel []\<rparr>)"

text \<open>
  The label input: \<open>onChange={(e) => setLabelValue(e.target.value)}\<close> with
  \<open>maxLength={100}\<close>. The attribute bounds what the user can type into the field; the
  handler stores whatever value the event carries.
\<close>

definition label_maxLength :: nat where
  "label_maxLength = 100"

definition label_onChange :: "client \<Rightarrow> string \<Rightarrow> client" where
  "label_onChange w v = w\<lparr>labelValue := v\<rparr>"

definition saveLabel ::
  "client \<Rightarrow> string \<Rightarrow> string \<Rightarrow> unit reply \<Rightarrow> (string \<times> linked_account list) list reply \<Rightarrow> client"
where
  "saveLabel w provider account_uid rep listRep =
     (case api_call w POST ''/api/auth/update-account-label/''
             [(''provider'', provider), (''uid'', account_uid), (''label'', labelValue w)] rep of
        (w', Fulfilled u) \<Rightarrow>
          fetchConnectedAccounts ((toast_success ''Label updated'' w')\<lparr>editingLabel := None\<rparr>) listRep
      | (w', Rejected err) \<Rightarrow> toast_error ''Failed to update label'' w')"

definition cancelEditing :: "client \<Rightarrow> client" where
  "cancelEditing w = (let w1 = w\<lparr>editingLabel := None\<rparr> in w1\<lparr>labelValue := []\<rparr>)"

section \<open>Observations used in the statements\<close>

text \<open>The requests issued between a state and a later one.\<close>

definition issued :: "client \<Rightarrow> client \<Rightarrow> config list" where
  "issued w w' = drop (length (sent w)) (sent w')"

text \<open>
  A call target matches the allow-list when its URL is present and one of the
  \<open>publicEndpoints\<close> occurs in it as a contiguous substring.
\<close>

definition matches_allow_list :: "string option \<Rightarrow> bool" where
  "matches_allow_list u =
     (\<exists>s e p q. u = Some s \<and> e \<in> set publicEndpoints \<and> s = p @ e @ q)"

text \<open>The Session Store: the two stored tokens and the authenticated flag.\<close>

definition session :: "client \<Rightarrow> string option \<times> string option \<times> bool" where
  "session w = (getItem (storage w) ''access'', getItem (storage w) ''refresh'', user w)"

text \<open>
  \<open>isAuthenticated()\<close> of the specification is the \<open>user\<close> flag that the AuthContext
  provides to the routes.
\<close>

definition isAuthenticated :: "client \<Rightarrow> bool" where
  "isAuthenticated w = user w"

definition both_tokens_present :: "client \<Rightarrow> bool" where
  "both_tokens_present w =
     (getItem (storage w) ''access'' \<noteq> None \<and> getItem (storage w) ''refresh'' \<noteq> None)"

section \<open>Example states\<close>

text \<open>A freshly loaded page: empty storage, nobody signed in.\<close>

definition fresh_client :: client where
  "fresh_client =
     \<lparr>storage = Map.empty, user = False, toasts = [], pathname = ''/'', sent = [],
      loading = False, repositories = [], syncing = Map.empty, accounts = [],
      editingLabel = None, labelValue = []\<rparr>"

definition no_body :: err_body where
  "no_body =
     \<lparr>data_email = None, data_password1 = None, data_non_field_errors = None,
      data_error = None\<rparr>"

text \<open>The state after \<open>login("a@x.com", "secret1")\<close> was answered with the pair T1, R1.\<close>

definition signed_in :: client where
  "signed_in =
     fst (login fresh_client ''a@x.com'' ''secret1'' (Ok \<lparr>access = ''T1'', refresh = ''R1''\<rparr>))"

text \<open>
  The state after a login that the backend answered with an empty access token:
  \<open>setItem\<close> stores the empty string.
\<close>

definition empty_token_client :: client where
  "empty_token_client =
     fst (login fresh_client ''a@x.com'' ''secret1'' (Ok \<lparr>access = [], refresh = ''R1''\<rparr>))"

definition submissions_call :: config where
  "submissions_call =
     \<lparr>verb = GET, url = Some ''/api/submissions/'', Authorization = None, payload = []\<rparr>"

text \<open>
  The sign-up page open while the storage shared by the application's tabs holds the
  tokens T1, R1 of a session.
\<close>

definition stored_session :: client where
  "stored_session = fresh_client\<lparr>storage := storage signed_in, pathname := ''/signup''\<rparr>"

text \<open>A protected call answered with 401.\<close>

definition expired_401 :: axios_error where
  "expired_401 =
     \<lparr>err_status = Some 401, err_url = Some ''/api/submissions/'', err_data = no_body\<rparr>"

text \<open>The \<open>label\<close> field of the body of the first of a list of requests.\<close>

definition first_label :: "config list \<Rightarrow> string option" where
  "first_label cs = (case cs of [] \<Rightarrow> None | c # rest \<Rightarrow> map_of (payload c) ''label'')"

section \<open>The sync status of an imported repository\<close>

text \<open>
  The sync status of an imported repository is computed by the backend, which is not
  among the sources: the page ImportedRepos posts the sync request and displays the
  \<open>sync_status\<close> that the backend reports. The tracker below follows the
  specification: the data model (section 3: status in \<open>pending\<close>, \<open>syncing\<close>, \<open>success\<close>,
  \<open>failed\<close>, with optional \<open>lastSyncedAt\<close> and \<open>lastSyncError\<close>, "mutated on each sync
  attempt"), the state machine (section 4.5), the concurrency model (section 5: sync
  requests for the same repository are not sequenced, "the last response to arrive
  wins") and the error handling (section 7: failures are "recoverable by user retry").
  \<open>outstanding\<close> counts the sync requests that have not been answered yet.
\<close>

datatype sync_state = Pending | Syncing | Success | Failed







section \<open>Substring search and the allow-list\<close>

lemma startsWith_iff: "startsWith s e \<longleftrightarrow> (\<exists>q. s = e @ q)"
  by (induction s e rule: startsWith.induct) auto

lemma str_includes_iff: "str_includes s e \<longleftrightarrow> (\<exists>p q. s = p @ e @ q)"
proof (induction s)
  case Nil
  then show ?case by simp
next
  case (Cons x xs)
  show ?case
  proof
    assume "str_includes (x # xs) e"
    then consider "startsWith (x # xs) e" | "str_includes xs e" by auto
    then show "\<exists>p q. x # xs = p @ e @ q"
    proof cases
      case 1
      then obtain q where "x # xs = e @ q" by (auto simp: startsWith_iff)
      then have "x # xs = [] @ e @ q" by simp
      then show ?thesis by blast
    next
      case 2
      then obtain p q where "xs = p @ e @ q" using Cons.IH by blast
      then have "x # xs = (x # p) @ e @ q" by simp
      then show ?thesis by blast
    qed
  next
    assume "\<exists>p q. x # xs = p @ e @ q"
    then obtain p q where pq: "x # xs = p @ e @ q" by blast
    show "str_includes (x # xs) e"
    proof (cases p)
      case Nil
      then have "startsWith (x # xs) e" using pq by (auto simp: startsWith_iff)
      then show ?thesis by simp
    next
      case (Cons y ys)
      then have "xs = ys @ e @ q" using pq by simp
      then have "str_includes xs e" using Cons.IH by blast
      then show ?thesis by simp
    qed
  qed
qed

lemma matches_allow_list_code:
  "matches_allow_list u = list_ex (\<lambda>endpoint. opt_includes u endpoint) publicEndpoints"
  unfolding matches_allow_list_def opt_includes_def list_ex_iff
  by (cases u) (auto simp: str_includes_iff)

lemma request_isPublicEndpoint_iff:
  "request_isPublicEndpoint cfg \<longleftrightarrow> matches_allow_list (url cfg)"
  by (simp add: request_isPublicEndpoint_def matches_allow_list_code)

lemma response_isAuthEndpoint_iff:
  "response_isAuthEndpoint err \<longleftrightarrow> matches_allow_list (err_url err)"
  by (simp add: response_isAuthEndpoint_def matches_allow_list_code)

lemmas storage_ops = getItem_def setItem_def removeItem_def clear_def

lemma signed_in_eq:
  "signed_in =
     \<lparr>storage = [''access'' \<mapsto> ''T1'', ''refresh'' \<mapsto> ''R1''], user = True, toasts = [],
      pathname = ''/'',
      sent = [\<lparr>verb = POST, url = Some ''/api/auth/login/'', Authorization = None,
               payload = [(''email'', ''a@x.com''), (''password'', ''secret1'')]\<rparr>],
      loading = False, repositories = [], syncing = Map.empty, accounts = [],
      editingLabel = None, labelValue = []\<rparr>"
  by (simp add: signed_in_def login_def api_call_def request_interceptor_def
      request_isPublicEndpoint_def publicEndpoints_def opt_includes_def install_tokens_def
      fresh_client_def storage_ops Let_def)

section \<open>The response interceptor on 401\<close>

text \<open>
  Claim C1. When the error handler of the response interceptor receives an error whose
  response status is 401: if the URL of the call does not match the public allow-list,
  the access and the refresh token are removed from storage, the notice "Your session
  has expired. Please login again." is shown and the location is the login page
  afterwards (the assignment to \<open>window.location.href\<close> is skipped only when the pathname
  is \<open>/login\<close> already); if the URL matches the allow-list, the state is left as it was.
  In both cases the promise is rejected with the same error.
\<close>

theorem response_401_clears_session_unless_public:
  assumes "err_status err = Some 401"
  shows "(\<not> matches_allow_list (err_url err) \<longrightarrow>
            getItem (storage (fst (response_error w err))) ''access'' = None \<and>
            getItem (storage (fst (response_error w err))) ''refresh'' = None \<and>
            toasts (fst (response_error w err)) =
              toasts w @ [ToastError ''Your session has expired. Please login again.''] \<and>
            pathname (fst (response_error w err)) = ''/login'') \<and>
         (matches_allow_list (err_url err) \<longrightarrow> fst (response_error w err) = w) \<and>
         snd (response_error w err) = err"
  using assms
  by (simp add: response_error_def response_isAuthEndpoint_iff toast_error_def storage_ops
      Let_def)

theorem response_401_clears_session_unless_public_witness:
  "err_status \<lparr>err_status = Some 401, err_url = Some ''/api/submissions/'', err_data = no_body\<rparr>
     = Some 401 \<and>
   \<not> matches_allow_list (Some ''/api/submissions/'') \<and>
   matches_allow_list (Some ''/api/auth/login/'') \<and>
   getItem (storage signed_in) ''access'' = Some ''T1'' \<and>
   getItem (storage (fst (response_error signed_in
      \<lparr>err_status = Some 401, err_url = Some ''/api/submissions/'', err_data = no_body\<rparr>)))
      ''access'' = None \<and>
   getItem (storage (fst (response_error signed_in
      \<lparr>err_status = Some 401, err_url = Some ''/api/submissions/'', err_data = no_body\<rparr>)))
      ''refresh'' = None \<and>
   pathname (fst (response_error signed_in
      \<lparr>err_status = Some 401, err_url = Some ''/api/submissions/'', err_data = no_body\<rparr>))
      = ''/login'' \<and>
   fst (response_error signed_in
      \<lparr>err_status = Some 401, err_url = Some ''/api/auth/login/'', err_data = no_body\<rparr>)
      = signed_in"
  using response_401_clears_session_unless_public
          [where err = "\<lparr>err_status = Some 401, err_url = Some ''/api/submissions/'', err_data = no_body\<rparr>"
             and w = signed_in]
        response_401_clears_session_unless_public
          [where err = "\<lparr>err_status = Some 401, err_url = Some ''/api/auth/login/'', err_data = no_body\<rparr>"
             and w = signed_in]
  by (simp add: matches_allow_list_code publicEndpoints_def opt_includes_def signed_in_eq
      storage_ops)

section \<open>The request interceptor\<close>

lemma empty_token_client_storage:
  "storage empty_token_client = [''access'' \<mapsto> [], ''refresh'' \<mapsto> ''R1'']"
  by (simp add: empty_token_client_def login_def api_call_def request_interceptor_def
      request_isPublicEndpoint_def publicEndpoints_def opt_includes_def install_tokens_def
      fresh_client_def storage_ops Let_def)

lemma submissions_not_public: "\<not> matches_allow_list (Some ''/api/submissions/'')"
  by (simp add: matches_allow_list_code publicEndpoints_def opt_includes_def)

lemma login_url_public: "matches_allow_list (Some ''/api/auth/login/'')"
  by (simp add: matches_allow_list_code publicEndpoints_def opt_includes_def)

text \<open>
  Claim C3, as amended. For a call whose URL does not match the public allow-list and
  a stored access token \<open>T\<close> that is not the empty string, the request interceptor sets
  the header \<open>Authorization: Bearer T\<close>. With no stored access token, or with the empty
  string stored, the configuration is passed on unchanged (the guard \<open>if (token)\<close>). For
  a call whose URL matches the allow-list the configuration is passed on unchanged.
\<close>

theorem request_interceptor_attaches_bearer:
  "(\<not> matches_allow_list (url cfg) \<and> getItem (storage w) ''access'' = Some T \<and> T \<noteq> [] \<longrightarrow>
      request_interceptor w cfg = cfg\<lparr>Authorization := Some (''Bearer '' @ T)\<rparr>) \<and>
   (\<not> matches_allow_list (url cfg) \<and>
      (getItem (storage w) ''access'' = None \<or> getItem (storage w) ''access'' = Some []) \<longrightarrow>
      request_interceptor w cfg = cfg) \<and>
   (matches_allow_list (url cfg) \<longrightarrow> request_interceptor w cfg = cfg)"
  by (auto simp: request_interceptor_def request_isPublicEndpoint_iff truthy_def Let_def)

theorem request_interceptor_attaches_bearer_witness:
  "\<not> matches_allow_list (url submissions_call) \<and>
   getItem (storage signed_in) ''access'' = Some ''T1'' \<and>
   request_interceptor signed_in submissions_call =
     submissions_call\<lparr>Authorization := Some ''Bearer T1''\<rparr> \<and>
   getItem (storage fresh_client) ''access'' = None \<and>
   request_interceptor fresh_client submissions_call = submissions_call \<and>
   matches_allow_list (url (submissions_call\<lparr>url := Some ''/api/auth/login/''\<rparr>)) \<and>
   request_interceptor signed_in (submissions_call\<lparr>url := Some ''/api/auth/login/''\<rparr>) =
     submissions_call\<lparr>url := Some ''/api/auth/login/''\<rparr>"
proof -
  have u: "url submissions_call = Some ''/api/submissions/''"
    by (simp add: submissions_call_def)
  have a: "getItem (storage signed_in) ''access'' = Some ''T1''"
    by (simp add: signed_in_eq getItem_def)
  have b: "getItem (storage fresh_client) ''access'' = None"
    by (simp add: fresh_client_def getItem_def)
  show ?thesis
    using request_interceptor_attaches_bearer
            [where cfg = submissions_call and w = signed_in and T = "''T1''"]
          request_interceptor_attaches_bearer
            [where cfg = submissions_call and w = fresh_client and T = "''T1''"]
          request_interceptor_attaches_bearer
            [where cfg = "submissions_call\<lparr>url := Some ''/api/auth/login/''\<rparr>"
               and w = signed_in and T = "''T1''"]
    by (simp add: u a b submissions_not_public login_url_public)
qed

text \<open>
  Claim C3 as stated fails where the stored access token is the empty string: the call
  is not public, the token is stored, and no \<open>Authorization\<close> header is attached.
\<close>

theorem request_interceptor_empty_token_counterexample:
  "\<not> matches_allow_list (url submissions_call) \<and>
   getItem (storage empty_token_client) ''access'' = Some [] \<and>
   Authorization (request_interceptor empty_token_client submissions_call) = None \<and>
   Authorization (request_interceptor empty_token_client submissions_call)
     \<noteq> Some (''Bearer '' @ [])"
proof -
  have u: "url submissions_call = Some ''/api/submissions/''"
    by (simp add: submissions_call_def)
  have a: "getItem (storage empty_token_client) ''access'' = Some []"
    by (simp add: empty_token_client_storage getItem_def)
  have "request_interceptor empty_token_client submissions_call = submissions_call"
    by (simp add: request_interceptor_def request_isPublicEndpoint_iff u a
        submissions_not_public truthy_def)
  then show ?thesis
    by (simp add: u a submissions_not_public) (simp add: submissions_call_def)
qed

section \<open>The classification of call targets\<close>

text \<open>
  Claim C10. A call target is classified as public exactly when its URL contains one
  of the four strings \<open>/api/auth/login/\<close>, \<open>/api/auth/registration/\<close>,
  \<open>/api/auth/google/\<close>, \<open>/accounts/github/login/\<close> as a contiguous substring; the
  classification of the response interceptor equals that of the request interceptor on
  every URL, and both classify a call without URL as not public.
\<close>

theorem public_classification_by_substring:
  "request_isPublicEndpoint (cfg\<lparr>url := Some u\<rparr>) =
     (\<exists>p q. u = p @ ''/api/auth/login/'' @ q \<or> u = p @ ''/api/auth/registration/'' @ q \<or>
            u = p @ ''/api/auth/google/'' @ q \<or> u = p @ ''/accounts/github/login/'' @ q) \<and>
   response_isAuthEndpoint (err\<lparr>err_url := Some u\<rparr>) =
     request_isPublicEndpoint (cfg\<lparr>url := Some u\<rparr>) \<and>
   \<not> request_isPublicEndpoint (cfg\<lparr>url := None\<rparr>) \<and>
   \<not> response_isAuthEndpoint (err\<lparr>err_url := None\<rparr>)"
proof -
  have a: "matches_allow_list (Some u) =
     (\<exists>p q. u = p @ ''/api/auth/login/'' @ q \<or> u = p @ ''/api/auth/registration/'' @ q \<or>
            u = p @ ''/api/auth/google/'' @ q \<or> u = p @ ''/accounts/github/login/'' @ q)"
    unfolding matches_allow_list_def publicEndpoints_def set_simps insert_iff empty_iff
    by blast
  show ?thesis
    unfolding request_isPublicEndpoint_iff response_isAuthEndpoint_iff
    using a by (simp add: matches_allow_list_def)
qed

text \<open>
  A URL that is not one of the four strings, yet contains one, is public for both
  interceptors.
\<close>

theorem public_classification_by_substring_witness:
  "request_isPublicEndpoint (submissions_call\<lparr>url := Some ''/v2/api/auth/login/?next=1''\<rparr>) \<and>
   response_isAuthEndpoint
     (\<lparr>err_status = Some 401, err_url = None, err_data = no_body\<rparr>
        \<lparr>err_url := Some ''/v2/api/auth/login/?next=1''\<rparr>) \<and>
   ''/v2/api/auth/login/?next=1'' \<noteq> ''/api/auth/login/''"
proof -
  have "''/v2/api/auth/login/?next=1'' = ''/v2'' @ ''/api/auth/login/'' @ ''?next=1''"
    by simp
  then have "\<exists>p q. ''/v2/api/auth/login/?next=1'' = p @ ''/api/auth/login/'' @ q \<or>
      ''/v2/api/auth/login/?next=1'' = p @ ''/api/auth/registration/'' @ q \<or>
      ''/v2/api/auth/login/?next=1'' = p @ ''/api/auth/google/'' @ q \<or>
      ''/v2/api/auth/login/?next=1'' = p @ ''/accounts/github/login/'' @ q"
    by blast
  then have "request_isPublicEndpoint
               (submissions_call\<lparr>url := Some ''/v2/api/auth/login/?next=1''\<rparr>) \<and>
             response_isAuthEndpoint
               (\<lparr>err_status = Some 401, err_url = None, err_data = no_body\<rparr>
                  \<lparr>err_url := Some ''/v2/api/auth/login/?next=1''\<rparr>)"
    using public_classification_by_substring
            [where cfg = submissions_call and u = "''/v2/api/auth/login/?next=1''"
               and err = "\<lparr>err_status = Some 401, err_url = None, err_data = no_body\<rparr>"]
    by blast
  then show ?thesis by simp
qed

section \<open>Calls through the axios instance\<close>

lemma request_interceptor_public:
  "matches_allow_list (url cfg) \<Longrightarrow> request_interceptor w cfg = cfg"
  by (simp add: request_interceptor_def request_isPublicEndpoint_iff)

lemma url_request_interceptor [simp]: "url (request_interceptor w cfg) = url cfg"
  by (simp add: request_interceptor_def Let_def split: option.splits)

lemma verb_request_interceptor [simp]: "verb (request_interceptor w cfg) = verb cfg"
  by (simp add: request_interceptor_def Let_def split: option.splits)

lemma payload_request_interceptor [simp]: "payload (request_interceptor w cfg) = payload cfg"
  by (simp add: request_interceptor_def Let_def split: option.splits)

lemma request_interceptor_storage_only:
  "storage w' = storage w \<Longrightarrow> request_interceptor w' cfg = request_interceptor w cfg"
  by (simp add: request_interceptor_def)

lemma snd_response_error [simp]: "snd (response_error w err) = err"
  by (simp add: response_error_def)

lemma sent_response_error [simp]: "sent (fst (response_error w err)) = sent w"
  by (simp add: response_error_def toast_error_def Let_def)

lemma user_response_error [simp]: "user (fst (response_error w err)) = user w"
  by (simp add: response_error_def toast_error_def Let_def)

lemma response_error_public:
  "matches_allow_list (err_url err) \<Longrightarrow> fst (response_error w err) = w"
  by (simp add: response_error_def response_isAuthEndpoint_iff)

lemma api_call_Ok:
  "api_call w v u b (Ok d) =
     (w\<lparr>sent := sent w @
         [request_interceptor w \<lparr>verb = v, url = Some u, Authorization = None, payload = b\<rparr>]\<rparr>,
      Fulfilled d)"
  by (simp add: api_call_def Let_def)

lemma api_call_Fail:
  "api_call w v u b (Fail st d) =
     (fst (response_error
        (w\<lparr>sent := sent w @
           [request_interceptor w \<lparr>verb = v, url = Some u, Authorization = None, payload = b\<rparr>]\<rparr>)
        \<lparr>err_status = st, err_url = Some u, err_data = d\<rparr>),
      Rejected \<lparr>err_status = st, err_url = Some u, err_data = d\<rparr>)"
  by (simp add: api_call_def Let_def case_prod_beta)

lemma api_call_Fail_public:
  assumes "matches_allow_list (Some u)"
  shows "api_call w v u b (Fail st d) =
     (w\<lparr>sent := sent w @ [\<lparr>verb = v, url = Some u, Authorization = None, payload = b\<rparr>]\<rparr>,
      Rejected \<lparr>err_status = st, err_url = Some u, err_data = d\<rparr>)"
  using assms by (simp add: api_call_Fail response_error_public request_interceptor_public)

lemma api_call_Ok_public:
  assumes "matches_allow_list (Some u)"
  shows "api_call w v u b (Ok d) =
     (w\<lparr>sent := sent w @ [\<lparr>verb = v, url = Some u, Authorization = None, payload = b\<rparr>]\<rparr>,
      Fulfilled d)"
  using assms by (simp add: api_call_Ok request_interceptor_public)

lemma registration_url_public: "matches_allow_list (Some ''/api/auth/registration/'')"
  by (simp add: matches_allow_list_code publicEndpoints_def opt_includes_def)

lemma google_url_public: "matches_allow_list (Some ''/api/auth/google/'')"
  by (simp add: matches_allow_list_code publicEndpoints_def opt_includes_def)

lemma signup_Ok:
  "signup w email p1 p2 (Ok res) =
     (install_tokens res
        (w\<lparr>sent := sent w @
           [\<lparr>verb = POST, url = Some ''/api/auth/registration/'', Authorization = None,
             payload = [(''email'', email), (''password1'', p1), (''password2'', p2)]\<rparr>]\<rparr>),
      Fulfilled ())"
  by (simp add: signup_def api_call_Ok_public registration_url_public)

lemma signup_Fail:
  "signup w email p1 p2 (Fail st d) =
     (w\<lparr>sent := sent w @
         [\<lparr>verb = POST, url = Some ''/api/auth/registration/'', Authorization = None,
           payload = [(''email'', email), (''password1'', p1), (''password2'', p2)]\<rparr>]\<rparr>,
      Rejected \<lparr>err_status = st, err_url = Some ''/api/auth/registration/'', err_data = d\<rparr>)"
  by (simp add: signup_def api_call_Fail_public registration_url_public)

lemma sent_install_tokens [simp]: "sent (install_tokens res w) = sent w"
  by (simp add: install_tokens_def Let_def)

lemma issued_handleSubmit_valid:
  assumes "p1 = p2" "8 \<le> length p1"
  shows "issued w (handleSubmit w email p1 p2 rep) =
     [\<lparr>verb = POST, url = Some ''/api/auth/registration/'', Authorization = None,
       payload = [(''email'', email), (''password1'', p1), (''password2'', p2)]\<rparr>]"
  using assms
  by (cases rep)
    (simp_all add: handleSubmit_def issued_def signup_Ok signup_Fail Let_def navigate_def
      toast_success_def toast_error_def)

section \<open>Sign-up validation\<close>

text \<open>
  Claim C5. A sign-up submission whose two passwords differ, or whose password has
  fewer than 8 characters, ends with an error toast ("Passwords do not match", or
  "Password must be at least 8 characters long") and nothing else: no request is
  issued and storage is untouched. When the passwords are equal and have at least 8
  characters, exactly the registration request is issued.
\<close>

theorem signup_validation_precedes_request:
  "(password1 \<noteq> password2 \<longrightarrow>
      handleSubmit w email password1 password2 rep = toast_error ''Passwords do not match'' w) \<and>
   (password1 = password2 \<and> length password1 < 8 \<longrightarrow>
      handleSubmit w email password1 password2 rep =
        toast_error ''Password must be at least 8 characters long'' w) \<and>
   (password1 \<noteq> password2 \<or> length password1 < 8 \<longrightarrow>
      issued w (handleSubmit w email password1 password2 rep) = [] \<and>
      storage (handleSubmit w email password1 password2 rep) = storage w) \<and>
   (password1 = password2 \<and> 8 \<le> length password1 \<longrightarrow>
      issued w (handleSubmit w email password1 password2 rep) =
        [\<lparr>verb = POST, url = Some ''/api/auth/registration/'', Authorization = None,
          payload = [(''email'', email), (''password1'', password1),
                     (''password2'', password2)]\<rparr>])"
proof -
  have mismatch: "password1 \<noteq> password2 \<longrightarrow>
      handleSubmit w email password1 password2 rep = toast_error ''Passwords do not match'' w"
    by (simp add: handleSubmit_def)
  have short: "password1 = password2 \<and> length password1 < 8 \<longrightarrow>
      handleSubmit w email password1 password2 rep =
        toast_error ''Password must be at least 8 characters long'' w"
    by (auto simp: handleSubmit_def)
  have invalid: "password1 \<noteq> password2 \<or> length password1 < 8 \<longrightarrow>
      issued w (handleSubmit w email password1 password2 rep) = [] \<and>
      storage (handleSubmit w email password1 password2 rep) = storage w"
    by (auto simp: handleSubmit_def issued_def toast_error_def)
  have valid: "password1 = password2 \<and> 8 \<le> length password1 \<longrightarrow>
      issued w (handleSubmit w email password1 password2 rep) =
        [\<lparr>verb = POST, url = Some ''/api/auth/registration/'', Authorization = None,
          payload = [(''email'', email), (''password1'', password1),
                     (''password2'', password2)]\<rparr>]"
    using issued_handleSubmit_valid [of password1 password2 w email rep] by blast
  from mismatch short invalid valid show ?thesis by blast
qed

theorem signup_validation_precedes_request_witness:
  "''short'' = ''short'' \<and> length ''short'' < 8 \<and>
   handleSubmit fresh_client ''a@x.com'' ''short'' ''short'' (Ok \<lparr>access = ''T1'', refresh = ''R1''\<rparr>)
     = toast_error ''Password must be at least 8 characters long'' fresh_client \<and>
   issued fresh_client
     (handleSubmit fresh_client ''a@x.com'' ''short'' ''short'' (Ok \<lparr>access = ''T1'', refresh = ''R1''\<rparr>))
     = [] \<and>
   ''password1'' \<noteq> ''password2'' \<and>
   handleSubmit fresh_client ''a@x.com'' ''password1'' ''password2''
       (Ok \<lparr>access = ''T1'', refresh = ''R1''\<rparr>)
     = toast_error ''Passwords do not match'' fresh_client \<and>
   8 \<le> length ''longenough'' \<and>
   issued fresh_client
     (handleSubmit fresh_client ''a@x.com'' ''longenough'' ''longenough''
        (Ok \<lparr>access = ''T1'', refresh = ''R1''\<rparr>))
     = [\<lparr>verb = POST, url = Some ''/api/auth/registration/'', Authorization = None,
         payload = [(''email'', ''a@x.com''), (''password1'', ''longenough''),
                    (''password2'', ''longenough'')]\<rparr>]"
  using signup_validation_precedes_request
          [where ?password1.0 = "''short''" and ?password2.0 = "''short''" and w = fresh_client
             and email = "''a@x.com''" and rep = "Ok \<lparr>access = ''T1'', refresh = ''R1''\<rparr>"]
        signup_validation_precedes_request
          [where ?password1.0 = "''password1''" and ?password2.0 = "''password2''"
             and w = fresh_client and email = "''a@x.com''"
             and rep = "Ok \<lparr>access = ''T1'', refresh = ''R1''\<rparr>"]
        signup_validation_precedes_request
          [where ?password1.0 = "''longenough''" and ?password2.0 = "''longenough''"
             and w = fresh_client and email = "''a@x.com''"
             and rep = "Ok \<lparr>access = ''T1'', refresh = ''R1''\<rparr>"]
  by (simp add: issued_def toast_error_def)

section \<open>Logout\<close>

text \<open>
  Claim C9. \<open>logout\<close> empties the whole of local storage: afterwards no key has a
  value, whatever the key, and the user flag is unset.
\<close>

theorem logout_clears_all_storage:
  "getItem (storage (logout w)) k = None \<and> dom (storage (logout w)) = {} \<and>
   user (logout w) = False"
  by (simp add: logout_def storage_ops Let_def)

theorem logout_clears_all_storage_witness:
  "getItem (storage (signed_in\<lparr>storage := setItem (storage signed_in) ''theme'' ''dark''\<rparr>))
     ''theme'' = Some ''dark'' \<and>
   getItem (storage (logout (signed_in\<lparr>storage := setItem (storage signed_in) ''theme'' ''dark''\<rparr>)))
     ''theme'' = None \<and>
   getItem (storage (logout (signed_in\<lparr>storage := setItem (storage signed_in) ''theme'' ''dark''\<rparr>)))
     ''access'' = None"
  using logout_clears_all_storage
          [where w = "signed_in\<lparr>storage := setItem (storage signed_in) ''theme'' ''dark''\<rparr>"
             and k = "''theme''"]
        logout_clears_all_storage
          [where w = "signed_in\<lparr>storage := setItem (storage signed_in) ''theme'' ''dark''\<rparr>"
             and k = "''access''"]
  by (simp add: storage_ops)

section \<open>Removing an imported repository\<close>

lemma sent_toast_error [simp]: "sent (toast_error m w) = sent w"
  by (simp add: toast_error_def)

lemma sent_toast_success [simp]: "sent (toast_success m w) = sent w"
  by (simp add: toast_success_def)

lemma storage_toast_error [simp]: "storage (toast_error m w) = storage w"
  by (simp add: toast_error_def)

lemma storage_toast_success [simp]: "storage (toast_success m w) = storage w"
  by (simp add: toast_success_def)

lemma sent_fetchImportedRepos:
  "sent (fetchImportedRepos w rep) =
     sent w @ [request_interceptor w
                 \<lparr>verb = GET, url = Some ''/api/repositories/'', Authorization = None,
                  payload = []\<rparr>]"
proof -
  have ri: "request_interceptor (w\<lparr>loading := True\<rparr>) c = request_interceptor w c" for c
    by (rule request_interceptor_storage_only) simp
  show ?thesis
    by (cases rep)
      (simp_all add: fetchImportedRepos_def Let_def api_call_Ok api_call_Fail ri)
qed

lemma issued_handleDelete_confirmed:
  "take 1 (issued w (handleDelete w True repoId rep listRep)) =
     [request_interceptor w
        \<lparr>verb = DELETE, url = Some (''/api/repositories/'' @ repoId @ ''/''),
         Authorization = None, payload = []\<rparr>]"
  by (cases rep)
    (simp_all add: handleDelete_def issued_def api_call_Ok api_call_Fail
      sent_fetchImportedRepos)

text \<open>
  Claim C7. \<open>handleDelete\<close> issues the DELETE request for the repository only when
  the user has confirmed: if the user declines, the state is unchanged and no request
  is made; a DELETE request is among the requests issued exactly when the user
  confirmed, and then the first request issued is the DELETE of the repository's
  resource \<open>/api/repositories/<id>/\<close> (nothing is kept or marked on the client: the
  removal is the backend's).
\<close>

theorem delete_only_after_confirmation:
  "handleDelete w False repoId rep listRep = w \<and>
   list_ex (\<lambda>c. verb c = DELETE) (issued w (handleDelete w confirmed repoId rep listRep))
     = confirmed \<and>
   take 1 (issued w (handleDelete w True repoId rep listRep)) =
     [request_interceptor w
        \<lparr>verb = DELETE, url = Some (''/api/repositories/'' @ repoId @ ''/''),
         Authorization = None, payload = []\<rparr>]"
proof -
  have declined: "handleDelete w False repoId rep listRep = w"
    by (simp add: handleDelete_def)
  have "list_ex (\<lambda>c. verb c = DELETE) (issued w (handleDelete w True repoId rep listRep))"
    by (cases rep)
      (simp_all add: handleDelete_def issued_def api_call_Ok api_call_Fail
        sent_fetchImportedRepos)
  moreover have "\<not> list_ex (\<lambda>c. verb c = DELETE) (issued w (handleDelete w False repoId rep listRep))"
    by (simp add: declined issued_def)
  ultimately have iff: "list_ex (\<lambda>c. verb c = DELETE)
      (issued w (handleDelete w confirmed repoId rep listRep)) = confirmed"
    by (cases confirmed) simp_all
  from declined iff issued_handleDelete_confirmed [of w repoId rep listRep]
  show ?thesis by blast
qed

lemma repositories_42_not_public: "\<not> matches_allow_list (Some ''/api/repositories/42/'')"
  by (simp add: matches_allow_list_code publicEndpoints_def opt_includes_def)

theorem delete_only_after_confirmation_witness:
  "handleDelete signed_in False ''42'' (Ok ()) (Ok []) = signed_in \<and>
   issued signed_in (handleDelete signed_in False ''42'' (Ok ()) (Ok [])) = [] \<and>
   take 1 (issued signed_in (handleDelete signed_in True ''42'' (Ok ()) (Ok []))) =
     [\<lparr>verb = DELETE, url = Some ''/api/repositories/42/'',
       Authorization = Some ''Bearer T1'', payload = []\<rparr>]"
proof -
  have a: "getItem (storage signed_in) ''access'' = Some ''T1''"
    by (simp add: signed_in_eq getItem_def)
  have "request_interceptor signed_in
          \<lparr>verb = DELETE, url = Some (''/api/repositories/'' @ ''42'' @ ''/''),
           Authorization = None, payload = []\<rparr> =
        \<lparr>verb = DELETE, url = Some ''/api/repositories/42/'',
         Authorization = Some ''Bearer T1'', payload = []\<rparr>"
    by (simp add: request_interceptor_def request_isPublicEndpoint_iff
        repositories_42_not_public a truthy_def)
  then show ?thesis
    using delete_only_after_confirmation
            [where w = signed_in and repoId = "''42''" and rep = "Ok ()" and listRep = "Ok []"
               and confirmed = False]
    by (simp add: issued_def)
qed

section \<open>Login, sign-up and the Session Store\<close>

lemma login_Ok:
  "login w email password (Ok res) =
     (install_tokens res
        (w\<lparr>sent := sent w @
           [\<lparr>verb = POST, url = Some ''/api/auth/login/'', Authorization = None,
             payload = [(''email'', email), (''password'', password)]\<rparr>]\<rparr>),
      Fulfilled ())"
  by (simp add: login_def api_call_Ok_public login_url_public)

lemma login_Fail:
  "login w email password (Fail st d) =
     (w\<lparr>sent := sent w @
         [\<lparr>verb = POST, url = Some ''/api/auth/login/'', Authorization = None,
           payload = [(''email'', email), (''password'', password)]\<rparr>]\<rparr>,
      Rejected \<lparr>err_status = st, err_url = Some ''/api/auth/login/'', err_data = d\<rparr>)"
  by (simp add: login_def api_call_Fail_public login_url_public)

lemma loginWithGoogle_Ok:
  "loginWithGoogle w accessToken (Ok res) =
     (install_tokens res
        (w\<lparr>sent := sent w @
           [\<lparr>verb = POST, url = Some ''/api/auth/google/'', Authorization = None,
             payload = [(''access_token'', accessToken)]\<rparr>]\<rparr>),
      Fulfilled ())"
  by (simp add: loginWithGoogle_def api_call_Ok_public google_url_public)

lemma loginWithGoogle_Fail:
  "loginWithGoogle w accessToken (Fail st d) =
     (w\<lparr>sent := sent w @
         [\<lparr>verb = POST, url = Some ''/api/auth/google/'', Authorization = None,
           payload = [(''access_token'', accessToken)]\<rparr>]\<rparr>,
      Rejected \<lparr>err_status = st, err_url = Some ''/api/auth/google/'', err_data = d\<rparr>)"
  by (simp add: loginWithGoogle_def api_call_Fail_public google_url_public)

lemma session_install_tokens:
  "session (install_tokens res w) = (Some (access res), Some (refresh res), True)"
  by (simp add: session_def install_tokens_def storage_ops Let_def)

lemma session_sent_update [simp]: "session (w\<lparr>sent := x\<rparr>) = session w"
  by (simp add: session_def)

lemma session_handleSubmit_invalid:
  "p1 \<noteq> p2 \<or> length p1 < 8 \<Longrightarrow> session (handleSubmit w email p1 p2 rep) = session w"
  by (auto simp: handleSubmit_def session_def toast_error_def)

lemma session_handleSubmit_Ok:
  "p1 = p2 \<Longrightarrow> 8 \<le> length p1 \<Longrightarrow>
   session (handleSubmit w email p1 p2 (Ok res)) = (Some (access res), Some (refresh res), True)"
  by (simp add: handleSubmit_def signup_Ok Let_def session_def install_tokens_def navigate_def
      toast_success_def storage_ops)

lemma session_handleSubmit_Fail:
  "p1 = p2 \<Longrightarrow> 8 \<le> length p1 \<Longrightarrow>
   session (handleSubmit w email p1 p2 (Fail st d)) = (None, None, user w)"
  by (simp add: handleSubmit_def signup_Fail Let_def session_def toast_error_def storage_ops)

text \<open>
  Claim C4, as amended. A successful \<open>login\<close>, \<open>loginWithGoogle\<close> or \<open>signup\<close>
  installs both tokens of the reply and leaves \<open>isAuthenticated\<close> true. A failed one
  leaves the Session Store (both tokens and the flag) as it was. A sign-up submission
  (\<open>handleSubmit\<close>) that fails validation leaves the Session Store as it was; one that
  passes validation removes the stored tokens before it calls \<open>signup\<close>, so that after
  a rejected registration no token is stored and the flag is as before.
\<close>

theorem auth_operations_and_session_store:
  "session (fst (login w email password (Ok res))) =
     (Some (access res), Some (refresh res), True) \<and>
   isAuthenticated (fst (login w email password (Ok res))) \<and>
   session (fst (loginWithGoogle w accessToken (Ok res))) =
     (Some (access res), Some (refresh res), True) \<and>
   isAuthenticated (fst (loginWithGoogle w accessToken (Ok res))) \<and>
   session (fst (signup w email password1 password2 (Ok res))) =
     (Some (access res), Some (refresh res), True) \<and>
   isAuthenticated (fst (signup w email password1 password2 (Ok res))) \<and>
   session (fst (login w email password (Fail st d))) = session w \<and>
   session (fst (loginWithGoogle w accessToken (Fail st d))) = session w \<and>
   session (fst (signup w email password1 password2 (Fail st d))) = session w \<and>
   (password1 \<noteq> password2 \<or> length password1 < 8 \<longrightarrow>
      session (handleSubmit w email password1 password2 rep) = session w) \<and>
   (password1 = password2 \<and> 8 \<le> length password1 \<longrightarrow>
      session (handleSubmit w email password1 password2 (Ok res)) =
        (Some (access res), Some (refresh res), True) \<and>
      session (handleSubmit w email password1 password2 (Fail st d)) = (None, None, user w))"
proof -
  have ok: "session (fst (login w email password (Ok res))) =
       (Some (access res), Some (refresh res), True)"
      "session (fst (loginWithGoogle w accessToken (Ok res))) =
       (Some (access res), Some (refresh res), True)"
      "session (fst (signup w email password1 password2 (Ok res))) =
       (Some (access res), Some (refresh res), True)"
    by (simp_all add: login_Ok loginWithGoogle_Ok signup_Ok session_install_tokens)
  have auth: "isAuthenticated (fst (login w email password (Ok res)))"
      "isAuthenticated (fst (loginWithGoogle w accessToken (Ok res)))"
      "isAuthenticated (fst (signup w email password1 password2 (Ok res)))"
    by (simp_all add: login_Ok loginWithGoogle_Ok signup_Ok isAuthenticated_def
        install_tokens_def Let_def)
  have fail: "session (fst (login w email password (Fail st d))) = session w"
      "session (fst (loginWithGoogle w accessToken (Fail st d))) = session w"
      "session (fst (signup w email password1 password2 (Fail st d))) = session w"
    by (simp_all add: login_Fail loginWithGoogle_Fail signup_Fail)
  from ok auth fail
    session_handleSubmit_invalid [of password1 password2 w email rep]
    session_handleSubmit_Ok [of password1 password2 w email res]
    session_handleSubmit_Fail [of password1 password2 w email st d]
  show ?thesis by blast
qed

lemma session_stored_session: "session stored_session = (Some ''T1'', Some ''R1'', False)"
  by (simp add: stored_session_def session_def signed_in_eq fresh_client_def storage_ops)

theorem auth_operations_and_session_store_witness:
  "session (fst (login fresh_client ''a@x.com'' ''secret1''
      (Ok \<lparr>access = ''T1'', refresh = ''R1''\<rparr>))) = (Some ''T1'', Some ''R1'', True) \<and>
   session (fst (login stored_session ''a@x.com'' ''wrong'' (Fail (Some 401) no_body)))
     = (Some ''T1'', Some ''R1'', False) \<and>
   ''short'' = ''short'' \<and> length ''short'' < 8 \<and>
   session (handleSubmit stored_session ''b@x.com'' ''short'' ''short'' (Fail (Some 400) no_body))
     = (Some ''T1'', Some ''R1'', False) \<and>
   8 \<le> length ''longenough'' \<and>
   session (handleSubmit stored_session ''b@x.com'' ''longenough'' ''longenough''
      (Ok \<lparr>access = ''T2'', refresh = ''R2''\<rparr>)) = (Some ''T2'', Some ''R2'', True) \<and>
   session (handleSubmit stored_session ''b@x.com'' ''longenough'' ''longenough''
      (Fail (Some 400) no_body)) = (None, None, False)"
proof -
  have u: "user stored_session = False"
    by (simp add: stored_session_def fresh_client_def)
  note i1 = auth_operations_and_session_store
      [where w = fresh_client and email = "''a@x.com''" and password = "''secret1''"
         and res = "\<lparr>access = ''T1'', refresh = ''R1''\<rparr>" and accessToken = "''g''"
         and ?password1.0 = "''short''" and ?password2.0 = "''short''"
         and st = "Some 401" and d = no_body and rep = "Fail (Some 400) no_body"]
  note i2 = auth_operations_and_session_store
      [where w = stored_session and email = "''a@x.com''" and password = "''wrong''"
         and res = "\<lparr>access = ''T2'', refresh = ''R2''\<rparr>" and accessToken = "''g''"
         and ?password1.0 = "''short''" and ?password2.0 = "''short''"
         and st = "Some 401" and d = no_body and rep = "Fail (Some 400) no_body"]
  note i3 = auth_operations_and_session_store
      [where w = stored_session and email = "''b@x.com''" and password = "''wrong''"
         and res = "\<lparr>access = ''T2'', refresh = ''R2''\<rparr>" and accessToken = "''g''"
         and ?password1.0 = "''short''" and ?password2.0 = "''short''"
         and st = "Some 400" and d = no_body and rep = "Fail (Some 400) no_body"]
  note i4 = auth_operations_and_session_store
      [where w = stored_session and email = "''b@x.com''" and password = "''wrong''"
         and res = "\<lparr>access = ''T2'', refresh = ''R2''\<rparr>" and accessToken = "''g''"
         and ?password1.0 = "''longenough''" and ?password2.0 = "''longenough''"
         and st = "Some 400" and d = no_body and rep = "Fail (Some 400) no_body"]
  show ?thesis
    using i1 i2 i3 i4 by (simp add: session_stored_session u)
qed

text \<open>
  Claim C4 as stated fails for a sign-up submission: with the tokens T1, R1 stored and
  a registration that the backend rejects, the stored tokens are gone afterwards.
\<close>

theorem signup_failure_clears_tokens_counterexample:
  "''longenough'' = ''longenough'' \<and> 8 \<le> length ''longenough'' \<and>
   session stored_session = (Some ''T1'', Some ''R1'', False) \<and>
   session (handleSubmit stored_session ''b@x.com'' ''longenough'' ''longenough''
      (Fail (Some 400) no_body)) = (None, None, False) \<and>
   session (handleSubmit stored_session ''b@x.com'' ''longenough'' ''longenough''
      (Fail (Some 400) no_body)) \<noteq> session stored_session"
  by (simp add: session_stored_session session_handleSubmit_Fail)
     (simp add: stored_session_def fresh_client_def)

section \<open>The user flag and the stored tokens\<close>

lemma user_GitHubCallback [simp]: "user (GitHubCallback w a r f h) = user w"
  by (simp add: GitHubCallback_def navigate_def Let_def split: option.splits)

text \<open>
  Claim C2, as amended. The user flag is tied to the stored tokens only at these
  points: when the provider mounts, the flag is set exactly when a non-empty access
  token is stored (the refresh token is not consulted, storage is not changed); after
  a successful \<open>login\<close>, \<open>loginWithGoogle\<close> or \<open>signup\<close> the flag is set and both tokens
  of the reply are stored; after \<open>logout\<close> the flag is unset and neither token is
  stored. The error handler of the response interceptor never changes the flag, and on
  a 401 from a call outside the public allow-list it removes both tokens.
\<close>

theorem user_flag_follows_auth_operations:
  "isAuthenticated (AuthProvider_mount w) = opt_truthy (getItem (storage w) ''access'') \<and>
   storage (AuthProvider_mount w) = storage w \<and>
   session (fst (login w email password (Ok res))) =
     (Some (access res), Some (refresh res), True) \<and>
   isAuthenticated (fst (login w email password (Ok res))) \<and>
   both_tokens_present (fst (login w email password (Ok res))) \<and>
   session (fst (loginWithGoogle w accessToken (Ok res))) =
     (Some (access res), Some (refresh res), True) \<and>
   isAuthenticated (fst (loginWithGoogle w accessToken (Ok res))) \<and>
   both_tokens_present (fst (loginWithGoogle w accessToken (Ok res))) \<and>
   session (fst (signup w email password1 password2 (Ok res))) =
     (Some (access res), Some (refresh res), True) \<and>
   isAuthenticated (fst (signup w email password1 password2 (Ok res))) \<and>
   both_tokens_present (fst (signup w email password1 password2 (Ok res))) \<and>
   \<not> isAuthenticated (logout w) \<and>
   getItem (storage (logout w)) ''access'' = None \<and>
   getItem (storage (logout w)) ''refresh'' = None \<and>
   isAuthenticated (fst (response_error w err)) = isAuthenticated w \<and>
   (err_status err = Some 401 \<and> \<not> matches_allow_list (err_url err) \<longrightarrow>
      getItem (storage (fst (response_error w err))) ''access'' = None \<and>
      getItem (storage (fst (response_error w err))) ''refresh'' = None)"
proof -
  have mount: "isAuthenticated (AuthProvider_mount w) = opt_truthy (getItem (storage w) ''access'')"
      "storage (AuthProvider_mount w) = storage w"
    by (simp_all add: AuthProvider_mount_def checkAuth_def access_flag_def isAuthenticated_def)
  have tok: "session (install_tokens res v) = (Some (access res), Some (refresh res), True) \<and>
      isAuthenticated (install_tokens res v) \<and> both_tokens_present (install_tokens res v)"
    for v
    by (simp add: install_tokens_def session_def isAuthenticated_def both_tokens_present_def
        storage_ops Let_def)
  have ops_login: "session (fst (login w email password (Ok res))) =
        (Some (access res), Some (refresh res), True)"
      "isAuthenticated (fst (login w email password (Ok res)))"
      "both_tokens_present (fst (login w email password (Ok res)))"
    by (simp_all add: login_Ok tok)
  have ops_google: "session (fst (loginWithGoogle w accessToken (Ok res))) =
        (Some (access res), Some (refresh res), True)"
      "isAuthenticated (fst (loginWithGoogle w accessToken (Ok res)))"
      "both_tokens_present (fst (loginWithGoogle w accessToken (Ok res)))"
    by (simp_all add: loginWithGoogle_Ok tok)
  have ops_signup: "session (fst (signup w email password1 password2 (Ok res))) =
        (Some (access res), Some (refresh res), True)"
      "isAuthenticated (fst (signup w email password1 password2 (Ok res)))"
      "both_tokens_present (fst (signup w email password1 password2 (Ok res)))"
    by (simp_all add: signup_Ok tok)
  have out: "\<not> isAuthenticated (logout w)"
      "getItem (storage (logout w)) ''access'' = None"
      "getItem (storage (logout w)) ''refresh'' = None"
    by (simp_all add: logout_def isAuthenticated_def storage_ops Let_def)
  have keep: "isAuthenticated (fst (response_error w err)) = isAuthenticated w"
    by (simp add: isAuthenticated_def)
  have expiry: "err_status err = Some 401 \<and> \<not> matches_allow_list (err_url err) \<longrightarrow>
      getItem (storage (fst (response_error w err))) ''access'' = None \<and>
      getItem (storage (fst (response_error w err))) ''refresh'' = None"
    by (simp add: response_error_def response_isAuthEndpoint_iff toast_error_def storage_ops
        Let_def)
  from mount ops_login ops_google ops_signup out keep expiry show ?thesis by blast
qed

theorem user_flag_follows_auth_operations_witness:
  "isAuthenticated (AuthProvider_mount (fresh_client\<lparr>storage := [''access'' \<mapsto> ''T1'']\<rparr>)) \<and>
   \<not> both_tokens_present (AuthProvider_mount (fresh_client\<lparr>storage := [''access'' \<mapsto> ''T1'']\<rparr>)) \<and>
   isAuthenticated signed_in \<and> both_tokens_present signed_in \<and>
   session signed_in = (Some ''T1'', Some ''R1'', True) \<and>
   \<not> isAuthenticated (logout signed_in) \<and>
   getItem (storage (logout signed_in)) ''access'' = None \<and>
   getItem (storage (logout signed_in)) ''refresh'' = None \<and>
   err_status expired_401 = Some 401 \<and>
   \<not> matches_allow_list (err_url expired_401) \<and>
   isAuthenticated (fst (response_error signed_in expired_401)) \<and>
   getItem (storage (fst (response_error signed_in expired_401))) ''access'' = None \<and>
   getItem (storage (fst (response_error signed_in expired_401))) ''refresh'' = None"
proof -
  note i = user_flag_follows_auth_operations
      [where w = "fresh_client\<lparr>storage := [''access'' \<mapsto> ''T1'']\<rparr>" and email = "''a@x.com''"
         and password = "''secret1''" and res = "\<lparr>access = ''T1'', refresh = ''R1''\<rparr>"
         and accessToken = "''g''" and ?password1.0 = "''longenough''"
         and ?password2.0 = "''longenough''" and err = expired_401]
  note j = user_flag_follows_auth_operations
      [where w = fresh_client and email = "''a@x.com''"
         and password = "''secret1''" and res = "\<lparr>access = ''T1'', refresh = ''R1''\<rparr>"
         and accessToken = "''g''" and ?password1.0 = "''longenough''"
         and ?password2.0 = "''longenough''" and err = expired_401]
  note k = user_flag_follows_auth_operations
      [where w = signed_in and email = "''a@x.com''"
         and password = "''secret1''" and res = "\<lparr>access = ''T1'', refresh = ''R1''\<rparr>"
         and accessToken = "''g''" and ?password1.0 = "''longenough''"
         and ?password2.0 = "''longenough''" and err = expired_401]
  have a: "isAuthenticated (AuthProvider_mount (fresh_client\<lparr>storage := [''access'' \<mapsto> ''T1'']\<rparr>))"
    using i by (simp add: opt_truthy_def truthy_def storage_ops)
  have b: "\<not> both_tokens_present (AuthProvider_mount (fresh_client\<lparr>storage := [''access'' \<mapsto> ''T1'']\<rparr>))"
    using i by (simp add: both_tokens_present_def storage_ops)
  have c: "isAuthenticated signed_in \<and> both_tokens_present signed_in \<and>
      session signed_in = (Some ''T1'', Some ''R1'', True)"
    using j by (simp add: signed_in_def)
  have d: "\<not> isAuthenticated (logout signed_in) \<and>
      getItem (storage (logout signed_in)) ''access'' = None \<and>
      getItem (storage (logout signed_in)) ''refresh'' = None"
    using k by blast
  have h1: "err_status expired_401 = Some 401"
    by (simp add: expired_401_def)
  have h2: "\<not> matches_allow_list (err_url expired_401)"
    by (simp add: expired_401_def submissions_not_public)
  have e: "isAuthenticated (fst (response_error signed_in expired_401)) \<and>
      getItem (storage (fst (response_error signed_in expired_401))) ''access'' = None \<and>
      getItem (storage (fst (response_error signed_in expired_401))) ''refresh'' = None"
    using k c h1 h2 by blast
  from a b c d h1 h2 e show ?thesis by blast
qed

text \<open>
  Claim C2 as stated fails in both directions. After a protected call of a signed-in
  user was answered with 401, the flag is set and the tokens are gone. After a signed-in
  user logged out and the route of the GitHub callback was entered with the tokens T1,
  R1 in its query (the provider stays mounted), both tokens are present and the flag is
  unset.
\<close>

theorem session_invariant_counterexample:
  "isAuthenticated (fst (response_error signed_in expired_401)) \<and>
   \<not> both_tokens_present (fst (response_error signed_in expired_401)) \<and>
   both_tokens_present
     (GitHubCallback (logout signed_in) (Some ''T1'') (Some ''R1'') None
        ''http://localhost:5173/github/callback?access=T1&refresh=R1'') \<and>
   \<not> isAuthenticated
     (GitHubCallback (logout signed_in) (Some ''T1'') (Some ''R1'') None
        ''http://localhost:5173/github/callback?access=T1&refresh=R1'')"
proof -
  have a: "both_tokens_present (GitHubCallback v (Some ''T1'') (Some ''R1'') None h)"
    for v h
    by (simp add: GitHubCallback_def both_tokens_present_def navigate_def truthy_def
        storage_ops Let_def)
  have b: "\<not> isAuthenticated (GitHubCallback (logout signed_in) (Some ''T1'') (Some ''R1'') None h)"
    for h
    by (simp add: isAuthenticated_def) (simp add: logout_def Let_def)
  have c: "isAuthenticated (fst (response_error signed_in expired_401))"
    by (simp add: isAuthenticated_def) (simp add: signed_in_eq)
  have d: "\<not> both_tokens_present (fst (response_error signed_in expired_401))"
    by (simp add: response_error_def response_isAuthEndpoint_iff expired_401_def
        submissions_not_public both_tokens_present_def toast_error_def storage_ops Let_def)
  from a b c d show ?thesis by blast
qed

section \<open>Saving an account label\<close>

lemma sent_fetchConnectedAccounts:
  "sent (fetchConnectedAccounts w rep) =
     sent w @ [request_interceptor w
                 \<lparr>verb = GET, url = Some ''/api/auth/connected-accounts/'',
                  Authorization = None, payload = []\<rparr>]"
proof -
  have ri: "request_interceptor (w\<lparr>loading := True\<rparr>) c = request_interceptor w c" for c
    by (rule request_interceptor_storage_only) simp
  show ?thesis
    by (cases rep)
      (simp_all add: fetchConnectedAccounts_def Let_def api_call_Ok api_call_Fail ri)
qed

lemma issued_saveLabel:
  "take 1 (issued w (saveLabel w provider account_uid rep listRep)) =
     [request_interceptor w
        \<lparr>verb = POST, url = Some ''/api/auth/update-account-label/'', Authorization = None,
         payload = [(''provider'', provider), (''uid'', account_uid),
                    (''label'', labelValue w)]\<rparr>]"
  by (cases rep)
    (simp_all add: saveLabel_def issued_def api_call_Ok api_call_Fail
      sent_fetchConnectedAccounts toast_success_def)

lemma first_label_take:
  "take 1 cs = [c] \<Longrightarrow> first_label cs = map_of (payload c) ''label''"
  by (cases cs) (simp_all add: first_label_def)

lemma first_label_saveLabel:
  "first_label (issued w (saveLabel w provider account_uid rep listRep)) = Some (labelValue w)"
  using first_label_take [OF issued_saveLabel [of w provider account_uid rep listRep]]
  by simp

text \<open>
  Claim C8, as amended. \<open>saveLabel\<close> submits the current value of the edit field as
  it is. The field is declared with \<open>maxLength={100}\<close>, so a value that the user typed
  into it (an \<open>onChange\<close> value of at most 100 characters) is submitted with at most 100
  characters. \<open>startEditingLabel\<close> fills the field with the account's current label (or
  the empty string), and \<open>cancelEditing\<close> empties it.
\<close>

theorem saveLabel_sends_field_value:
  "first_label (issued w (saveLabel w provider account_uid rep listRep)) = Some (labelValue w) \<and>
   labelValue (label_onChange w v) = v \<and>
   labelValue (startEditingLabel w provider account_uid currentLabel) = or_else currentLabel [] \<and>
   labelValue (cancelEditing w) = [] \<and>
   (length v \<le> label_maxLength \<longrightarrow>
      first_label (issued (label_onChange w v)
        (saveLabel (label_onChange w v) provider account_uid rep listRep)) = Some v \<and>
      length v \<le> 100)"
proof -
  have a: "labelValue (label_onChange w v) = v"
    by (simp add: label_onChange_def)
  have b: "labelValue (startEditingLabel w provider account_uid currentLabel) =
      or_else currentLabel []"
    by (simp add: startEditingLabel_def Let_def)
  have c: "labelValue (cancelEditing w) = []"
    by (simp add: cancelEditing_def Let_def)
  have d: "first_label (issued (label_onChange w v)
        (saveLabel (label_onChange w v) provider account_uid rep listRep)) = Some v"
    by (simp add: first_label_saveLabel a)
  have e: "length v \<le> label_maxLength \<longrightarrow> length v \<le> 100"
    by (simp add: label_maxLength_def)
  from first_label_saveLabel [of w provider account_uid rep listRep] a b c d e
  show ?thesis by blast
qed

theorem saveLabel_sends_field_value_witness:
  "length ''Work'' \<le> label_maxLength \<and>
   first_label (issued (label_onChange signed_in ''Work'')
     (saveLabel (label_onChange signed_in ''Work'') ''github'' ''7'' (Ok ()) (Ok [])))
     = Some ''Work''"
  using saveLabel_sends_field_value
          [where w = signed_in and v = "''Work''" and provider = "''github''"
             and account_uid = "''7''" and rep = "Ok ()" and listRep = "Ok []"
             and currentLabel = None]
  by (simp add: label_maxLength_def)

text \<open>
  Claim C8 as stated fails when the field was filled by \<open>startEditingLabel\<close> from a
  current label of 101 characters: \<open>saveLabel\<close> submits all 101.
\<close>

theorem saveLabel_long_label_counterexample:
  "100 < length (replicate 101 CHR ''a'') \<and>
   first_label
     (issued (startEditingLabel signed_in ''github'' ''7'' (Some (replicate 101 CHR ''a'')))
        (saveLabel (startEditingLabel signed_in ''github'' ''7'' (Some (replicate 101 CHR ''a'')))
           ''github'' ''7'' (Ok ()) (Ok [])))
     = Some (replicate 101 CHR ''a'')"
  by (simp add: first_label_saveLabel startEditingLabel_def or_else_def truthy_def Let_def)

section \<open>Sync status transitions\<close>

text \<open>
  On the page, \<open>handleSync\<close> requests the sync without consulting the status of the
  repository, and after a successful request the page shows the rows of the backend's
  list reply; a status other than the four known ones gets the default colour.
\<close>

lemma handleSync_not_gated:
  "take 1 (issued w (handleSync w repoId rep listRep)) =
     [request_interceptor w
        \<lparr>verb = POST, url = Some (''/api/repositories/'' @ repoId @ ''/sync/''),
         Authorization = None, payload = []\<rparr>]"
proof -
  have ri: "request_interceptor (w\<lparr>syncing := m\<rparr>) c = request_interceptor w c" for m c
    by (rule request_interceptor_storage_only) simp
  show ?thesis
    by (cases rep)
      (simp_all add: handleSync_def issued_def Let_def api_call_Ok api_call_Fail ri
        sent_fetchImportedRepos)
qed

lemma handleSync_shows_backend_rows:
  "repositories (handleSync w repoId (Ok m) (Ok rs)) = rs"
  by (simp add: handleSync_def fetchImportedRepos_def Let_def api_call_Ok)

lemma getStatusColor_default:
  "st \<notin> {''success'', ''failed'', ''syncing'', ''pending''} \<Longrightarrow>
   getStatusColor st = ''bg-gray-100 text-gray-800''"
  by (simp add: getStatusColor_def)








end
